theory Spec2Isabelle
  imports Main "HOL-Library.FSet"
begin

section \<open>The graph store of src/graph.cpp\<close>

text \<open>
  The embedding follows \<^verbatim>\<open>Graph\<close> of graph.cpp member by member. A \<^verbatim>\<open>std::set<int>\<close>
  is a finite set of integers, iterated in ascending order; an \<^verbatim>\<open>unordered_map\<close> or
  \<^verbatim>\<open>map\<close> is a partial function; a \<^verbatim>\<open>std::list<int>\<close> is a list. Every member function
  takes the graph and returns the graph it leaves behind, next to its return value.

  C++ \<^verbatim>\<open>int\<close> is modelled by the unbounded \<^typ>\<open>int\<close>: the counters move by one per
  call, and no property below depends on a counter passing \<open>2^31 - 1\<close>.

  Not modelled: the fields of a node that the functions below never read (position,
  velocity, label, attributes, material, size), the output written to \<^verbatim>\<open>cout\<close>, the
  redraw request of \<^verbatim>\<open>update()\<close>, the call \<^verbatim>\<open>application->clearSelections()\<close>, and the
  mutex of the store functions, which every one of them releases before it returns.
\<close>

subsection \<open>Records\<close>

record Edge =
  source :: int
  target :: int

record Node =
  inDegree :: int
  outDegree :: int
  component :: int
  adjacent :: "int \<rightharpoonup> int list"

record Graph =
  application :: nat
  version :: int
  nodeId :: int
  edgeId :: int
  nodes :: "int fset"
  nodeMap :: "int \<rightharpoonup> Node"
  edges :: "int fset"
  edgeMap :: "int \<rightharpoonup> Edge"

datatype error = Undefined | NoReturn | BadVertex

text \<open>
  Modelled from the spec: the class \<^verbatim>\<open>Node\<close> and its default constructor are declared in
  graph.hpp, which is not among the sources. The spec's data model gives a node the two
  degree counters, which count its edges, and an adjacency index from target id to the
  edge ids; a node that was just constructed has no edge, so both counters are 0 and the
  index is empty.
\<close>

definition Node_ctor :: Node where
  "Node_ctor = \<lparr>inDegree = 0, outDegree = 0, component = 0, adjacent = Map.empty\<rparr>"

subsection \<open>The subscript operator of the maps\<close>

text \<open>
  \<^verbatim>\<open>m[k]\<close> on a C++ map returns the stored value, and stores a default-constructed one
  first when the key is absent. \<open>subscript d m k\<close> is the value \<^verbatim>\<open>m[k]\<close> refers to, and
  \<open>modify d m k f\<close> the map after \<^verbatim>\<open>m[k]\<close> was changed in place by \<open>f\<close>; with
  \<open>f = id\<close> it is the map after a mere read through \<^verbatim>\<open>m[k]\<close>.
\<close>

definition subscript :: "'v \<Rightarrow> ('k \<rightharpoonup> 'v) \<Rightarrow> 'k \<Rightarrow> 'v" where
  "subscript d m k = (case m k of None \<Rightarrow> d | Some v \<Rightarrow> v)"

definition modify :: "'v \<Rightarrow> ('k \<rightharpoonup> 'v) \<Rightarrow> 'k \<Rightarrow> ('v \<Rightarrow> 'v) \<Rightarrow> ('k \<rightharpoonup> 'v)" where
  "modify d m k f = m(k \<mapsto> f (subscript d m k))"

definition at_node :: "int \<Rightarrow> (Node \<Rightarrow> Node) \<Rightarrow> Graph \<Rightarrow> Graph" where
  "at_node k f g = g\<lparr>nodeMap := modify Node_ctor (nodeMap g) k f\<rparr>"

subsection \<open>Construction, assignment, clear, version\<close>

definition Graph_ctor :: "nat \<Rightarrow> Graph" where
  "Graph_ctor app =
     \<lparr>application = app, version = -1, nodeId = -1, edgeId = -1,
      nodes = {||}, nodeMap = Map.empty, edges = {||}, edgeMap = Map.empty\<rparr>"

text \<open>\<^verbatim>\<open>operator=\<close>: \<open>assign this g\<close> is \<^verbatim>\<open>this\<close> after \<^verbatim>\<open>this = g\<close>, for two distinct objects.\<close>

definition assign :: "Graph \<Rightarrow> Graph \<Rightarrow> Graph" where
  "assign this g =
     this\<lparr>application := application g, version := version g,
          nodeMap := nodeMap g, nodes := nodes g,
          edgeMap := edgeMap g, edges := edges g\<rparr>"

definition clear :: "Graph \<Rightarrow> Graph" where
  "clear g =
     g\<lparr>nodes := {||}, nodeMap := Map.empty, edges := {||}, edgeMap := Map.empty,
       version := -1, nodeId := -1, edgeId := -1\<rparr>"

definition getVersion :: "Graph \<Rightarrow> int" where
  "getVersion g = version g"

definition update :: "Graph \<Rightarrow> Graph" where
  "update g = g\<lparr>version := version g + 1\<rparr>"

subsection \<open>Nodes\<close>

definition isValidNode :: "Graph \<Rightarrow> int \<Rightarrow> bool" where
  "isValidNode g node = (nodeMap g node \<noteq> None)"

definition getNodeCount :: "Graph \<Rightarrow> int" where
  "getNodeCount g = int (fcard (nodes g))"

definition addNode :: "Graph \<Rightarrow> int \<times> Graph" where
  "addNode g =
     (let n = Node_ctor;
          g1 = g\<lparr>nodeId := nodeId g + 1\<rparr>;
          g2 = g1\<lparr>nodes := finsert (nodeId g1) (nodes g1)\<rparr>;
          g3 = g2\<lparr>nodeMap := (nodeMap g2)(nodeId g2 \<mapsto> n)\<rparr>;
          g4 = update g3
      in (nodeId g4, g4))"

definition getDegree :: "int \<Rightarrow> Graph \<Rightarrow> int \<times> Graph" where
  "getDegree node g =
     (inDegree (subscript Node_ctor (nodeMap g) node)
        + outDegree (subscript Node_ctor (nodeMap g) node),
      at_node node id g)"

subsection \<open>Edges\<close>

definition isValidEdge :: "Graph \<Rightarrow> int \<Rightarrow> bool" where
  "isValidEdge g edge = (edgeMap g edge \<noteq> None)"

definition getEdgeCount :: "Graph \<Rightarrow> int" where
  "getEdgeCount g = int (fcard (edges g))"

text \<open>\<^verbatim>\<open>n.adjacent[t].push_back(e)\<close> and \<^verbatim>\<open>n.adjacent[t]\<close> on one node record.\<close>

definition push_back_adjacent :: "int \<Rightarrow> int \<Rightarrow> Node \<Rightarrow> Node" where
  "push_back_adjacent t e n = n\<lparr>adjacent := modify [] (adjacent n) t (\<lambda>l. l @ [e])\<rparr>"

definition touch_adjacent :: "int \<Rightarrow> Node \<Rightarrow> Node" where
  "touch_adjacent t n = n\<lparr>adjacent := modify [] (adjacent n) t id\<rparr>"

definition addEdge :: "int \<Rightarrow> int \<Rightarrow> Graph \<Rightarrow> int \<times> Graph" where
  "addEdge src tgt g =
     (if \<not> isValidNode g src \<or> \<not> isValidNode g tgt then (-1, g)
      else
        let g1 = g\<lparr>edgeId := edgeId g + 1\<rparr>;
            g2 = g1\<lparr>edges := finsert (edgeId g1) (edges g1)\<rparr>;
            g3 = g2\<lparr>edgeMap := (edgeMap g2)(edgeId g2 \<mapsto> \<lparr>source = src, target = tgt\<rparr>)\<rparr>;
            g4 = at_node src (\<lambda>n. n\<lparr>outDegree := outDegree n + 1\<rparr>) g3;
            g5 = at_node tgt (\<lambda>n. n\<lparr>inDegree := inDegree n + 1\<rparr>) g4;
            g6 = at_node src (push_back_adjacent tgt (edgeId g5)) g5;
            g7 = update g6
        in (edgeId g7, g7))"

definition clearEdges :: "Graph \<Rightarrow> Graph" where
  "clearEdges g =
     (let g1 = fold (\<lambda>node. at_node node (\<lambda>n. n\<lparr>adjacent := Map.empty\<rparr>))
                 (sorted_list_of_fset (nodes g)) g;
          g2 = g1\<lparr>edges := {||}, edgeMap := Map.empty\<rparr>
      in update g2)"

text \<open>
  \<^verbatim>\<open>deleteEdge\<close>: \<^verbatim>\<open>neighbors.erase(find(...))\<close> erases the first occurrence of the id; when
  the id is not in the list, \<^verbatim>\<open>find\<close> returns \<^verbatim>\<open>end()\<close> and erasing it is undefined.
  Past the guard the id is a key of \<^verbatim>\<open>edgeMap\<close>, so \<^verbatim>\<open>edgeMap[edge]\<close> is the stored record.
\<close>

definition deleteEdge :: "int \<Rightarrow> Graph \<Rightarrow> error + int \<times> Graph" where
  "deleteEdge edge g =
     (if \<not> isValidEdge g edge then Inr (-1, g)
      else
        let e = the (edgeMap g edge);
            g1 = at_node (source e) (touch_adjacent (target e)) g;
            neighbors = subscript [] (adjacent (subscript Node_ctor (nodeMap g1) (source e))) (target e)
        in if edge \<notin> set neighbors then Inl Undefined
           else
             let g2 = at_node (source e) (\<lambda>n. n\<lparr>adjacent := (adjacent n)(target e \<mapsto> remove1 edge neighbors)\<rparr>) g1;
                 g3 = g2\<lparr>edges := edges g2 |-| {|edge|}\<rparr>;
                 g4 = g3\<lparr>edgeMap := (edgeMap g3)(edge := None)\<rparr>
             in Inr (edge, update g4))"

definition getEdges :: "int \<Rightarrow> int \<Rightarrow> Graph \<Rightarrow> int list \<times> Graph" where
  "getEdges src tgt g =
     (let g1 = at_node src (touch_adjacent tgt) g
      in (subscript [] (adjacent (subscript Node_ctor (nodeMap g1) src)) tgt, g1))"

definition hasEdge :: "int \<Rightarrow> int \<Rightarrow> Graph \<Rightarrow> bool \<times> Graph" where
  "hasEdge src tgt g =
     (let g1 = at_node src id g
      in (adjacent (subscript Node_ctor (nodeMap g1) src) tgt \<noteq> None, g1))"

text \<open>
  \<^verbatim>\<open>deleteNode(int)\<close>. The default-constructed \<^verbatim>\<open>Edge\<close> that \<^verbatim>\<open>edgeMap[edge]\<close> stores for an
  absent key is declared in graph.hpp, which is not among the sources: it is the
  parameter \<open>E0\<close>. The first loop fills \<^verbatim>\<open>killList\<close>, the second erases its members.
\<close>

fun fill_killList :: "Edge \<Rightarrow> int \<Rightarrow> int list \<Rightarrow> Graph \<Rightarrow> int list \<Rightarrow> int list \<times> Graph" where
  "fill_killList E0 node [] g killList = (killList, g)"
| "fill_killList E0 node (edge # rest) g killList =
     (let e = subscript E0 (edgeMap g) edge;
          g1 = g\<lparr>edgeMap := modify E0 (edgeMap g) edge id\<rparr>
      in fill_killList E0 node rest g1
           (if source e = node \<or> target e = node then killList @ [edge] else killList))"

fun erase_killList :: "int list \<Rightarrow> Graph \<Rightarrow> Graph" where
  "erase_killList [] g = g"
| "erase_killList (edge # rest) g =
     (let g1 = g\<lparr>edges := edges g |-| {|edge|}\<rparr>;
          g2 = g1\<lparr>edgeMap := (edgeMap g1)(edge := None)\<rparr>
      in erase_killList rest g2)"

definition deleteNode :: "Edge \<Rightarrow> int \<Rightarrow> Graph \<Rightarrow> int \<times> Graph" where
  "deleteNode E0 node g =
     (if \<not> isValidNode g node then (-1, g)
      else
        let (killList, g1) = fill_killList E0 node (sorted_list_of_fset (edges g)) g [];
            g2 = erase_killList killList g1;
            g3 = g2\<lparr>nodes := nodes g2 |-| {|node|}\<rparr>;
            g4 = g3\<lparr>nodeMap := (nodeMap g3)(node := None)\<rparr>
        in (node, update g4))"

subsection \<open>The adapter to the algorithms library\<close>

text \<open>
  Modelled from the spec: \<^verbatim>\<open>boost::BoostGraph\<close> is a typedef of graph.hpp, which is not
  among the sources, over the adjacency list of the Boost Graph Library. The spec calls
  it a directed multigraph whose vertices are a dense 0-based index. graph.cpp passes
  plain \<^verbatim>\<open>int\<close>s as vertex descriptors, so the vertices are the indices below
  \<open>num_vertices\<close>; \<open>add_vertex\<close> appends one; \<open>add_edge\<close> records an edge and, as the
  library does for such a graph, grows the vertex range to hold the larger endpoint. A
  negative endpoint is no vertex descriptor: the model stops there with an error.
\<close>

record BoostGraph =
  num_vertices :: nat
  edge_list :: "(nat \<times> nat) list"

definition BoostGraph_ctor :: BoostGraph where
  "BoostGraph_ctor = \<lparr>num_vertices = 0, edge_list = []\<rparr>"

definition add_vertex :: "BoostGraph \<Rightarrow> BoostGraph" where
  "add_vertex bg = bg\<lparr>num_vertices := num_vertices bg + 1\<rparr>"

definition add_edge :: "int \<Rightarrow> int \<Rightarrow> BoostGraph \<Rightarrow> error + BoostGraph" where
  "add_edge u v bg =
     (if u < 0 \<or> v < 0 then Inl BadVertex
      else Inr (bg\<lparr>num_vertices := max (num_vertices bg) (max (nat u) (nat v) + 1),
                   edge_list := edge_list bg @ [(nat u, nat v)]\<rparr>))"

text \<open>
  \<^verbatim>\<open>toBoost\<close>. Its first loop is \<^verbatim>\<open>for(int node = 0; node > getNodeCount(); node++)\<close>: once
  entered it would not end, so it is a partial function, and not returning is \<open>None\<close>.
  Its second loop runs \<^verbatim>\<open>edge\<close> from 0 while \<^verbatim>\<open>edge < getEdgeCount()\<close> and reads
  \<^verbatim>\<open>edgeMap[edge]\<close>, which stores \<open>E0\<close> for an id that is not a key.
\<close>

partial_function (option) vertex_loop :: "Graph \<Rightarrow> int \<Rightarrow> BoostGraph \<Rightarrow> BoostGraph option" where
  "vertex_loop g node bg =
     (if node > getNodeCount g then vertex_loop g (node + 1) (add_vertex bg) else Some bg)"

function edge_loop :: "Edge \<Rightarrow> int \<Rightarrow> Graph \<Rightarrow> BoostGraph \<Rightarrow> error + BoostGraph \<times> Graph" where
  "edge_loop E0 edge g bg =
     (if edge < getEdgeCount g then
        (let e = subscript E0 (edgeMap g) edge;
             g1 = g\<lparr>edgeMap := modify E0 (edgeMap g) edge id\<rparr>
         in case add_edge (source e) (target e) bg of
              Inl err \<Rightarrow> Inl err
            | Inr bg1 \<Rightarrow> edge_loop E0 (edge + 1) g1 bg1)
      else Inr (bg, g))"
  by pat_completeness auto
termination
  by (relation "measure (\<lambda>(E0, edge, g, bg). nat (getEdgeCount g - edge))")
     (auto simp: getEdgeCount_def)

definition toBoost :: "Edge \<Rightarrow> Graph \<Rightarrow> error + BoostGraph \<times> Graph" where
  "toBoost E0 g =
     (case vertex_loop g 0 BoostGraph_ctor of
        None \<Rightarrow> Inl NoReturn
      | Some bg \<Rightarrow> edge_loop E0 0 g bg)"

subsection \<open>Analytics\<close>

text \<open>
  The four analytics functions call the algorithms library on the graph \<^verbatim>\<open>toBoost\<close>
  built. The library is not part of the repository: each algorithm is a parameter that
  maps the external graph and the vectors it is handed to the vector it leaves behind.
  \<^verbatim>\<open>application->getPreviousNode()\<close> is the parameter \<open>prev\<close>.

  What a call returns is recorded with three observations: the graph it leaves behind,
  whether the library's algorithm ran, and whether the mutex the function locked on
  entry is still locked when it returns.

  \<^verbatim>\<open>&v[0]\<close> on a vector of length 0 refers to an element that does not exist: it is
  undefined, and the model stops there with \<open>Undefined\<close>.
\<close>

record 'r Returned =
  result :: "'r list"
  after :: Graph
  algorithm_run :: bool
  mutex_locked :: bool

definition getBetweennessCentrality ::
  "Edge \<Rightarrow> (BoostGraph \<Rightarrow> 'd list \<Rightarrow> 'd list) \<Rightarrow> Graph \<Rightarrow> error + ('d::zero) Returned" where
  "getBetweennessCentrality E0 brandes_betweenness_centrality g =
     (case toBoost E0 g of
        Inl err \<Rightarrow> Inl err
      | Inr (bg, g1) \<Rightarrow>
          let bc = replicate (nat (getNodeCount g1)) 0
          in if getNodeCount g1 = 0
             then Inr \<lparr>result = bc, after = g1, algorithm_run = False, mutex_locked = True\<rparr>
             else Inr \<lparr>result = brandes_betweenness_centrality bg bc, after = g1,
                       algorithm_run = True, mutex_locked = False\<rparr>)"

definition getShortestPath ::
  "Edge \<Rightarrow> (BoostGraph \<Rightarrow> int \<Rightarrow> int list \<Rightarrow> int list \<Rightarrow> int list) \<Rightarrow> int \<Rightarrow> Graph
     \<Rightarrow> error + int Returned" where
  "getShortestPath E0 dijkstra_shortest_paths prev g =
     (case toBoost E0 g of
        Inl err \<Rightarrow> Inl err
      | Inr (bg, g1) \<Rightarrow>
          let p = replicate (nat (getNodeCount g1)) 0;
              d = replicate (nat (getNodeCount g1)) 0
          in if getNodeCount g1 = 0
             then Inr \<lparr>result = p, after = g1, algorithm_run = False, mutex_locked = True\<rparr>
             else Inr \<lparr>result = dijkstra_shortest_paths bg prev p d, after = g1,
                       algorithm_run = True, mutex_locked = False\<rparr>)"

definition getSpanningTree ::
  "Edge \<Rightarrow> (BoostGraph \<Rightarrow> int list \<Rightarrow> int list) \<Rightarrow> Graph \<Rightarrow> error + int Returned" where
  "getSpanningTree E0 prim_minimum_spanning_tree g =
     (case toBoost E0 g of
        Inl err \<Rightarrow> Inl err
      | Inr (bg, g1) \<Rightarrow>
          let p = replicate (nat (getNodeCount g1)) 0
          in if getNodeCount g1 = 0
             then Inr \<lparr>result = p, after = g1, algorithm_run = False, mutex_locked = True\<rparr>
             else Inr \<lparr>result = prim_minimum_spanning_tree bg p, after = g1,
                       algorithm_run = True, mutex_locked = False\<rparr>)"

text \<open>
  \<^verbatim>\<open>setComponents\<close> returns nothing: its \<open>result\<close> is the vector \<^verbatim>\<open>c\<close> the library filled.
  The last loop reads \<^verbatim>\<open>c[node]\<close> for every live node id; outside the vector the read is
  undefined.
\<close>

fun write_components :: "int list \<Rightarrow> int list \<Rightarrow> Graph \<Rightarrow> error + Graph" where
  "write_components c [] g = Inr g"
| "write_components c (node # rest) g =
     (if node < 0 \<or> int (length c) \<le> node then Inl Undefined
      else write_components c rest (at_node node (\<lambda>n. n\<lparr>component := c ! nat node\<rparr>) g))"

definition setComponents ::
  "Edge \<Rightarrow> (BoostGraph \<Rightarrow> int list \<Rightarrow> int list) \<Rightarrow> Graph \<Rightarrow> error + int Returned" where
  "setComponents E0 connected_components g =
     (case toBoost E0 g of
        Inl err \<Rightarrow> Inl err
      | Inr (bg, g1) \<Rightarrow>
          let c = replicate (nat (getNodeCount g1)) 0
          in if c = [] then Inl Undefined
             else
               let c1 = connected_components bg c
               in case write_components c1 (sorted_list_of_fset (nodes g1)) g1 of
                    Inl err \<Rightarrow> Inl err
                  | Inr g2 \<Rightarrow> Inr \<lparr>result = c1, after = g2, algorithm_run = True,
                                   mutex_locked = False\<rparr>)"

subsection \<open>Notions the properties are stated with\<close>

text \<open>\<open>addNode_times k\<close> calls \<^verbatim>\<open>addNode()\<close> \<open>k\<close> times and lists the ids returned, in order.\<close>

fun addNode_times :: "nat \<Rightarrow> Graph \<Rightarrow> int list \<times> Graph" where
  "addNode_times 0 g = ([], g)"
| "addNode_times (Suc k) g =
     (let (node, g1) = addNode g;
          (rest, g2) = addNode_times k g1
      in (node # rest, g2))"

text \<open>
  An edge id is incident to a node when the record \<^verbatim>\<open>edgeMap[edge]\<close> names the node as
  source or target: the test of \<^verbatim>\<open>deleteNode\<close>'s first loop.
\<close>

definition incident :: "Edge \<Rightarrow> Graph \<Rightarrow> int \<Rightarrow> int \<Rightarrow> bool" where
  "incident E0 g node edge =
     (source (subscript E0 (edgeMap g) edge) = node \<or> target (subscript E0 (edgeMap g) edge) = node)"

text \<open>
  The live edges into and out of a node, and the degree invariant of the data model:
  the two counters of the node equal the numbers of those edges.
\<close>

definition inEdges :: "Graph \<Rightarrow> int \<Rightarrow> int fset" where
  "inEdges g n = ffilter (\<lambda>e. map_option target (edgeMap g e) = Some n) (edges g)"

definition outEdges :: "Graph \<Rightarrow> int \<Rightarrow> int fset" where
  "outEdges g n = ffilter (\<lambda>e. map_option source (edgeMap g e) = Some n) (edges g)"

definition degrees_exact :: "Graph \<Rightarrow> int \<Rightarrow> bool" where
  "degrees_exact g n =
     (inDegree (subscript Node_ctor (nodeMap g) n) = int (fcard (inEdges g n)) \<and>
      outDegree (subscript Node_ctor (nodeMap g) n) = int (fcard (outEdges g n)))"

text \<open>
  Three graphs built through the interface: nodes 0 and 1; the same with the edge
  \<open>0 \<rightarrow> 1\<close> (id 0); nodes 0, 1, 2 with the edges \<open>0 \<rightarrow> 1\<close>, \<open>1 \<rightarrow> 2\<close>, \<open>2 \<rightarrow> 0\<close> (ids 0, 1, 2).
\<close>

definition two_nodes :: Graph where
  "two_nodes = snd (addNode (snd (addNode (Graph_ctor 0))))"

definition one_edge :: Graph where
  "one_edge = snd (addEdge 0 1 two_nodes)"

definition three_cycle :: Graph where
  "three_cycle =
     snd (addEdge 2 0 (snd (addEdge 1 2 (snd (addEdge 0 1 (snd (addNode two_nodes)))))))"

section \<open>Auxiliary facts\<close>

lemmas store_defs =
  addNode_def addEdge_def deleteEdge_def getEdges_def hasEdge_def at_node_def modify_def
  subscript_def update_def isValidNode_def isValidEdge_def push_back_adjacent_def
  touch_adjacent_def getEdgeCount_def getNodeCount_def Graph_ctor_def Node_ctor_def

lemmas fixture_defs = two_nodes_def one_edge_def three_cycle_def

declare edge_loop.simps [simp del]

subsection \<open>Node ids\<close>

lemma addNode_nodeId:
  "fst (addNode g) = nodeId g + 1 \<and> nodeId (snd (addNode g)) = nodeId g + 1"
  by (simp add: addNode_def update_def Let_def)

lemma addNode_times_ids:
  "fst (addNode_times k g) = map (\<lambda>i. nodeId g + 1 + int i) [0..<k]"
proof (induction k arbitrary: g)
  case 0
  show ?case by simp
next
  case (Suc k)
  have "fst (addNode_times (Suc k) g) = fst (addNode g) # fst (addNode_times k (snd (addNode g)))"
    by (simp add: Let_def split: prod.splits)
  also have "\<dots> = (nodeId g + 1) # map (\<lambda>i. nodeId g + 1 + 1 + int i) [0..<k]"
    by (simp add: Suc.IH addNode_nodeId)
  also have "\<dots> = map (\<lambda>i. nodeId g + 1 + int i) (0 # map Suc [0..<k])"
    by (simp add: algebra_simps)
  also have "0 # map Suc [0..<k] = [0..<Suc k]"
    by (simp add: upt_conv_Cons map_Suc_upt del: upt_Suc)
  finally show ?case .
qed

subsection \<open>Adding and deleting an edge\<close>

lemma hasEdge_addEdge:
  assumes "isValidNode g s" and "isValidNode g t"
  shows "fst (hasEdge s t (snd (addEdge s t g)))"
  using assms by (simp add: store_defs Let_def)

lemma deleteEdge_success:
  assumes "edgeMap g e = Some ed" and "deleteEdge e g = Inr (r, g')"
  shows "r = e"
    and "edges g' = edges g |-| {|e|}"
    and "edgeMap g' = (edgeMap g)(e := None)"
    and "fst (hasEdge (source ed) (target ed) g')"
    and "inDegree (subscript Node_ctor (nodeMap g') n) = inDegree (subscript Node_ctor (nodeMap g) n)"
    and "outDegree (subscript Node_ctor (nodeMap g') n) = outDegree (subscript Node_ctor (nodeMap g) n)"
  using assms
  by (auto simp: store_defs Let_def split: if_splits option.splits)

lemma outEdges_deleteEdge:
  assumes "edgeMap g e = Some ed" and "deleteEdge e g = Inr (r, g')"
  shows "outEdges g' n = outEdges g n |-| {|e|}"
    and "inEdges g' n = inEdges g n |-| {|e|}"
proof -
  have a: "edges g' = edges g |-| {|e|}" and b: "edgeMap g' = (edgeMap g)(e := None)"
    by (rule deleteEdge_success(2,3) [OF assms])+
  show "outEdges g' n = outEdges g n |-| {|e|}"
    unfolding outEdges_def a b by (rule fset_eqI) auto
  show "inEdges g' n = inEdges g n |-| {|e|}"
    unfolding inEdges_def a b by (rule fset_eqI) auto
qed

subsection \<open>The guard of addEdge\<close>

text \<open>
  The guard rejects an id that is not a key of \<^verbatim>\<open>nodeMap\<close>, and then nothing changes. In a
  state where every key of \<^verbatim>\<open>nodeMap\<close> is in the live set, that covers every id that is not
  live.
\<close>

lemma addEdge_guard:
  "\<not> isValidNode g src \<or> \<not> isValidNode g tgt \<Longrightarrow> addEdge src tgt g = (-1, g)"
  by (simp add: addEdge_def)

lemma addEdge_not_live:
  assumes "\<And>k. isValidNode g k \<Longrightarrow> k |\<in>| nodes g"
    and "src |\<notin>| nodes g \<or> tgt |\<notin>| nodes g"
  shows "addEdge src tgt g = (-1, g)"
  using assms by (intro addEdge_guard) blast

subsection \<open>Deleting a node\<close>

lemma subscript_touch: "subscript d (modify d m k id) j = subscript d m j"
  by (simp add: subscript_def modify_def)

lemma incident_touch:
  "incident E0 (g\<lparr>edgeMap := modify E0 (edgeMap g) k id\<rparr>) n e = incident E0 g n e"
  by (simp add: incident_def subscript_touch)

lemma incident_stored:
  "edgeMap g e = Some ed \<Longrightarrow> incident E0 g n e = (source ed = n \<or> target ed = n)"
  by (simp add: incident_def subscript_def)

lemma fill_killList_fst:
  "fst (fill_killList E0 n es g kl) = kl @ filter (incident E0 g n) es"
proof (induction es arbitrary: g kl)
  case Nil
  show ?case by simp
next
  case (Cons e es)
  show ?case
    by (simp add: Cons.IH Let_def incident_touch) (simp add: incident_def)
qed

lemma fill_killList_snd:
  "edges (snd (fill_killList E0 n es g kl)) = edges g \<and>
   nodes (snd (fill_killList E0 n es g kl)) = nodes g \<and>
   nodeMap (snd (fill_killList E0 n es g kl)) = nodeMap g \<and>
   version (snd (fill_killList E0 n es g kl)) = version g \<and>
   edgeMap (snd (fill_killList E0 n es g kl)) k =
     (if k \<in> set es \<and> edgeMap g k = None then Some E0 else edgeMap g k)"
proof (induction es arbitrary: g kl)
  case Nil
  show ?case by simp
next
  case (Cons e es)
  show ?case
    by (simp add: Cons.IH Let_def) (auto simp: modify_def subscript_def)
qed

lemma erase_killList_eq:
  "edges (erase_killList kl g) = edges g |-| fset_of_list kl \<and>
   nodes (erase_killList kl g) = nodes g \<and>
   nodeMap (erase_killList kl g) = nodeMap g \<and>
   version (erase_killList kl g) = version g \<and>
   edgeMap (erase_killList kl g) k = (if k \<in> set kl then None else edgeMap g k)"
proof (induction kl arbitrary: g)
  case Nil
  show ?case by simp
next
  case (Cons e kl)
  have "edges g |-| {|e|} |-| fset_of_list kl = edges g |-| finsert e (fset_of_list kl)"
    by (rule fset_eqI) auto
  then show ?case
    by (simp add: Cons.IH Let_def)
qed

lemma deleteNode_valid:
  assumes "isValidNode g n"
  shows "fst (deleteNode E0 n g) = n"
    and "edges (snd (deleteNode E0 n g)) = edges g |-| ffilter (incident E0 g n) (edges g)"
    and "nodes (snd (deleteNode E0 n g)) = nodes g |-| {|n|}"
    and "nodeMap (snd (deleteNode E0 n g)) = (nodeMap g)(n := None)"
    and "edgeMap (snd (deleteNode E0 n g)) k =
           (if k |\<in>| edges g \<and> incident E0 g n k then None
            else if k |\<in>| edges g \<and> edgeMap g k = None then Some E0
            else edgeMap g k)"
    and "version (snd (deleteNode E0 n g)) = version g + 1"
proof -
  obtain kl g1 where f: "fill_killList E0 n (sorted_list_of_fset (edges g)) g [] = (kl, g1)"
    by (cases "fill_killList E0 n (sorted_list_of_fset (edges g)) g []") auto
  have kl: "kl = filter (incident E0 g n) (sorted_list_of_fset (edges g))"
    using fill_killList_fst [of E0 n "sorted_list_of_fset (edges g)" g "[]"] f by simp
  have g1: "edges g1 = edges g" "nodes g1 = nodes g" "nodeMap g1 = nodeMap g"
      "version g1 = version g"
      "\<And>k. edgeMap g1 k = (if k |\<in>| edges g \<and> edgeMap g k = None then Some E0 else edgeMap g k)"
    using fill_killList_snd [of E0 n "sorted_list_of_fset (edges g)" g "[]"] f
    by simp_all
  have dn: "deleteNode E0 n g =
      (n, update (erase_killList kl g1\<lparr>nodes := nodes (erase_killList kl g1) |-| {|n|},
                                      nodeMap := (nodeMap (erase_killList kl g1))(n := None)\<rparr>))"
    using assms by (simp add: deleteNode_def f Let_def)
  have fs: "fset_of_list kl = ffilter (incident E0 g n) (edges g)"
    by (simp add: kl)
  have setkl: "\<And>k. k \<in> set kl \<longleftrightarrow> k |\<in>| edges g \<and> incident E0 g n k"
    by (auto simp: kl)
  note er = erase_killList_eq [of kl g1]
  show "fst (deleteNode E0 n g) = n" by (simp add: dn)
  show "edges (snd (deleteNode E0 n g)) = edges g |-| ffilter (incident E0 g n) (edges g)"
    by (simp add: dn update_def er g1 fs)
  show "nodes (snd (deleteNode E0 n g)) = nodes g |-| {|n|}"
    by (simp add: dn update_def er g1)
  show "nodeMap (snd (deleteNode E0 n g)) = (nodeMap g)(n := None)"
    by (simp add: dn update_def er g1)
  show "edgeMap (snd (deleteNode E0 n g)) k =
           (if k |\<in>| edges g \<and> incident E0 g n k then None
            else if k |\<in>| edges g \<and> edgeMap g k = None then Some E0
            else edgeMap g k)"
    using erase_killList_eq [of kl g1 k] by (simp add: dn update_def g1 setkl)
  show "version (snd (deleteNode E0 n g)) = version g + 1"
    by (simp add: dn update_def er g1)
qed

subsection \<open>The other delete paths and the degree counters\<close>

text \<open>
  \<^verbatim>\<open>clearEdges\<close> empties the edge store and \<^verbatim>\<open>deleteNode\<close> erases the incident edges; both
  leave the degree counters of the remaining nodes as they are.
\<close>

lemma fold_at_node_adjacent:
  "inDegree (subscript Node_ctor (nodeMap (fold (\<lambda>node. at_node node (\<lambda>n. n\<lparr>adjacent := a\<rparr>)) ns g)) k)
     = inDegree (subscript Node_ctor (nodeMap g) k) \<and>
   outDegree (subscript Node_ctor (nodeMap (fold (\<lambda>node. at_node node (\<lambda>n. n\<lparr>adjacent := a\<rparr>)) ns g)) k)
     = outDegree (subscript Node_ctor (nodeMap g) k) \<and>
   edges (fold (\<lambda>node. at_node node (\<lambda>n. n\<lparr>adjacent := a\<rparr>)) ns g) = edges g"
proof (induction ns arbitrary: g)
  case Nil
  show ?case by simp
next
  case (Cons x ns)
  show ?case
    by (simp add: Cons.IH) (simp add: at_node_def modify_def subscript_def)
qed

lemma clearEdges_keeps_counters:
  "inDegree (subscript Node_ctor (nodeMap (clearEdges g)) k) = inDegree (subscript Node_ctor (nodeMap g) k)"
  "outDegree (subscript Node_ctor (nodeMap (clearEdges g)) k) = outDegree (subscript Node_ctor (nodeMap g) k)"
  "edges (clearEdges g) = {||}"
  by (simp_all add: clearEdges_def update_def Let_def fold_at_node_adjacent)

lemma deleteNode_keeps_counters:
  assumes "isValidNode g n" and "k \<noteq> n"
  shows "nodeMap (snd (deleteNode E0 n g)) k = nodeMap g k"
  by (simp add: deleteNode_valid(4) [OF assms(1)] assms(2))

subsection \<open>The loops of the adapter\<close>

lemma vertex_loop_0: "vertex_loop g 0 bg = Some bg"
  by (subst vertex_loop.simps) (simp add: getNodeCount_def)

lemma toBoost_edge_loop: "toBoost E0 g = edge_loop E0 0 g BoostGraph_ctor"
  by (simp add: toBoost_def vertex_loop_0)

text \<open>
  Two runs of \<^verbatim>\<open>toBoost\<close>. With nodes 0, 1, 2 and the edge \<open>0 \<rightarrow> 1\<close> the external graph
  has the two vertices \<^verbatim>\<open>add_edge\<close> made, and none for node 2. With the edges \<open>0 \<rightarrow> 1\<close>
  (id 0) and \<open>1 \<rightarrow> 0\<close> (id 1) and the first deleted, the edge loop reads the id 0, which is
  no longer live, and never reads the live id 1: the external graph holds the endpoints
  of a default-constructed edge.
\<close>

lemma toBoost_misses_isolated_node:
  "getNodeCount (snd (addNode one_edge)) = 3 \<and>
   toBoost \<lparr>source = 0, target = 0\<rparr> (snd (addNode one_edge)) =
     Inr (\<lparr>num_vertices = 2, edge_list = [(0, 1)]\<rparr>, snd (addNode one_edge))"
proof
  show "getNodeCount (snd (addNode one_edge)) = 3"
    by code_simp
  show "toBoost \<lparr>source = 0, target = 0\<rparr> (snd (addNode one_edge)) =
     Inr (\<lparr>num_vertices = 2, edge_list = [(0, 1)]\<rparr>, snd (addNode one_edge))"
    by (simp add: toBoost_edge_loop edge_loop.simps [of _ 0] edge_loop.simps [of _ 1]
        fixture_defs store_defs BoostGraph_ctor_def add_edge_def fcard_finsert_if fcard_fempty
        Let_def)
qed

lemma toBoost_reads_dead_edge_id:
  "\<exists>g. deleteEdge 0 (snd (addEdge 1 0 one_edge)) = Inr (0, g) \<and>
        edges g = {|1|} \<and> edgeMap g 1 = Some \<lparr>source = 1, target = 0\<rparr> \<and> edgeMap g 0 = None \<and>
        map_sum id fst (toBoost \<lparr>source = 5, target = 7\<rparr> g) =
          Inr \<lparr>num_vertices = 8, edge_list = [(5, 7)]\<rparr>"
  by (simp add: fixture_defs store_defs toBoost_edge_loop edge_loop.simps [of _ 0]
      edge_loop.simps [of _ 1] BoostGraph_ctor_def add_edge_def fcard_finsert_if fcard_fempty
      finsert_fminus_if Let_def)

section \<open>The claims\<close>

text \<open>
  C1. The claim: on a graph whose node ids are \<open>0..getNodeCount()-1\<close>, \<^verbatim>\<open>toBoost\<close> adds one
  external vertex per index, so the external graph has \<open>getNodeCount()\<close> vertices. The
  code: the vertex loop tests \<^verbatim>\<open>node > getNodeCount()\<close>, which is false at \<open>node = 0\<close>, so
  it adds no vertex at all. \<^verbatim>\<open>toBoost\<close> is the edge loop run on the empty external graph,
  and on a graph without edges it returns the external graph with 0 vertices, whatever
  the number of nodes.
\<close>

theorem toBoost_adds_no_vertex:
  assumes "getEdgeCount g = 0"
  shows "toBoost E0 g = edge_loop E0 0 g BoostGraph_ctor \<and>
         toBoost E0 g = Inr (BoostGraph_ctor, g) \<and>
         num_vertices BoostGraph_ctor = 0"
  using assms
  by (simp add: toBoost_edge_loop edge_loop.simps [of E0 0] BoostGraph_ctor_def)

theorem toBoost_adds_no_vertex_witness:
  "nodes (snd (addNode (Graph_ctor 0))) = {|0|} \<and>
   getNodeCount (snd (addNode (Graph_ctor 0))) = 1 \<and>
   getEdgeCount (snd (addNode (Graph_ctor 0))) = 0 \<and>
   toBoost \<lparr>source = 0, target = 0\<rparr> (snd (addNode (Graph_ctor 0))) =
     Inr (\<lparr>num_vertices = 0, edge_list = []\<rparr>, snd (addNode (Graph_ctor 0)))"
proof -
  have h: "getEdgeCount (snd (addNode (Graph_ctor 0))) = 0"
    by (simp add: store_defs)
  have n: "nodes (snd (addNode (Graph_ctor 0))) = {|0|}"
    by (simp add: store_defs)
  have c: "getNodeCount (snd (addNode (Graph_ctor 0))) = 1"
    by (simp add: store_defs fcard_finsert_if)
  from toBoost_adds_no_vertex [OF h, of "\<lparr>source = 0, target = 0\<rparr>", THEN conjunct2] h n c
  show ?thesis by (simp add: BoostGraph_ctor_def)
qed

text \<open>
  C2. The claim: \<^verbatim>\<open>hasEdge(source, target)\<close> is true right after a successful
  \<^verbatim>\<open>addEdge(source, target)\<close>, and false right after \<^verbatim>\<open>deleteEdge\<close> of the last edge from
  source to target. The code: the first half holds. \<^verbatim>\<open>deleteEdge\<close> erases the id from the
  adjacency bucket and leaves the bucket, now possibly empty, in the index;
  \<^verbatim>\<open>hasEdge\<close> tests for the bucket. So after every successful \<^verbatim>\<open>deleteEdge\<close> of an edge,
  \<^verbatim>\<open>hasEdge\<close> of its endpoints is true, also when no edge is left.
\<close>

theorem hasEdge_after_addEdge_deleteEdge:
  "(isValidNode g s \<and> isValidNode g t \<longrightarrow> fst (hasEdge s t (snd (addEdge s t g)))) \<and>
   (edgeMap h e = Some ed \<and> deleteEdge e h = Inr (r, h') \<longrightarrow>
      r = e \<and> e |\<notin>| edges h' \<and> \<not> isValidEdge h' e \<and>
      fst (hasEdge (source ed) (target ed) h'))"
  using hasEdge_addEdge [of g s t] deleteEdge_success(1-4) [of h e ed r h']
  by (auto simp: isValidEdge_def)

theorem hasEdge_after_addEdge_deleteEdge_witness:
  "isValidNode two_nodes 0 \<and> isValidNode two_nodes 1 \<and>
   fst (addEdge 0 1 two_nodes) = 0 \<and>
   fst (hasEdge 0 1 one_edge) \<and>
   (\<exists>g'. deleteEdge 0 one_edge = Inr (0, g') \<and> getEdgeCount g' = 0 \<and> fst (hasEdge 0 1 g'))"
proof -
  have v: "isValidNode two_nodes 0 \<and> isValidNode two_nodes 1"
    by (simp add: fixture_defs store_defs)
  have id0: "fst (addEdge 0 1 two_nodes) = 0"
    by (simp add: fixture_defs store_defs)
  have em: "edgeMap one_edge 0 = Some \<lparr>source = 0, target = 1\<rparr>"
    by (simp add: fixture_defs store_defs)
  have ed: "edges one_edge = {|0|}"
    by (simp add: fixture_defs store_defs)
  obtain r g' where del: "deleteEdge 0 one_edge = Inr (r, g')"
    by (simp add: fixture_defs store_defs)
  have cnt: "getEdgeCount g' = 0"
    using deleteEdge_success(2) [OF em del] ed by (simp add: getEdgeCount_def)
  from v em del hasEdge_after_addEdge_deleteEdge
    [where g = two_nodes and s = 0 and t = 1 and h = one_edge and e = 0
       and ed = "\<lparr>source = 0, target = 1\<rparr>" and r = r and h' = g']
  have "fst (hasEdge 0 1 one_edge) \<and> r = 0 \<and> fst (hasEdge 0 1 g')"
    by (simp add: one_edge_def)
  with v id0 del cnt show ?thesis by simp
qed

text \<open>
  C3. The claim: in every reachable state the degree counters of a live node equal the
  numbers of live edges into and out of it, and every operation keeps that, \<^verbatim>\<open>deleteEdge\<close>
  included. The code: \<^verbatim>\<open>addEdge\<close> increments the two counters and \<^verbatim>\<open>deleteEdge\<close> never
  decrements them. Whenever the counters of the endpoints are exact before a successful
  \<^verbatim>\<open>deleteEdge\<close> of a live edge, they are stored unchanged, the edge counts drop, and the
  counters are wrong afterwards.
\<close>

theorem deleteEdge_keeps_degree_counters:
  assumes "edgeMap g e = Some ed" and "e |\<in>| edges g"
    and "deleteEdge e g = Inr (r, g')"
    and "degrees_exact g (source ed)" and "degrees_exact g (target ed)"
  shows "outDegree (subscript Node_ctor (nodeMap g') (source ed))
           = outDegree (subscript Node_ctor (nodeMap g) (source ed)) \<and>
         inDegree (subscript Node_ctor (nodeMap g') (target ed))
           = inDegree (subscript Node_ctor (nodeMap g) (target ed)) \<and>
         fcard (outEdges g' (source ed)) < fcard (outEdges g (source ed)) \<and>
         fcard (inEdges g' (target ed)) < fcard (inEdges g (target ed)) \<and>
         \<not> degrees_exact g' (source ed) \<and> \<not> degrees_exact g' (target ed)"
proof -
  have out_mem: "e |\<in>| outEdges g (source ed)" and in_mem: "e |\<in>| inEdges g (target ed)"
    using assms(1,2) by (simp_all add: outEdges_def inEdges_def)
  have out_less: "fcard (outEdges g' (source ed)) < fcard (outEdges g (source ed))"
    using fcard_fminus1_less [OF out_mem] by (simp only: outEdges_deleteEdge(1) [OF assms(1,3)])
  have in_less: "fcard (inEdges g' (target ed)) < fcard (inEdges g (target ed))"
    using fcard_fminus1_less [OF in_mem] by (simp only: outEdges_deleteEdge(2) [OF assms(1,3)])
  note keep = deleteEdge_success(5,6) [OF assms(1,3)]
  from out_less in_less assms(4,5) show ?thesis
    by (simp add: degrees_exact_def keep)
qed

theorem deleteEdge_keeps_degree_counters_witness:
  "degrees_exact one_edge 0 \<and> degrees_exact one_edge 1 \<and>
   (\<exists>g'. deleteEdge 0 one_edge = Inr (0, g')
      \<and> isValidNode g' 0 \<and> isValidNode g' 1 \<and> getEdgeCount g' = 0
      \<and> outDegree (subscript Node_ctor (nodeMap g') 0) = 1
      \<and> inDegree (subscript Node_ctor (nodeMap g') 1) = 1
      \<and> \<not> degrees_exact g' 0 \<and> \<not> degrees_exact g' 1)"
proof -
  have em: "edgeMap one_edge 0 = Some \<lparr>source = 0, target = 1\<rparr>"
    by (simp add: fixture_defs store_defs)
  have ed: "edges one_edge = {|0|}"
    by (simp add: fixture_defs store_defs)
  have mem: "0 |\<in>| edges one_edge"
    by (simp add: ed)
  have d0: "degrees_exact one_edge 0" and d1: "degrees_exact one_edge 1"
    by code_simp+
  have o: "outDegree (subscript Node_ctor (nodeMap one_edge) 0) = 1"
    and i: "inDegree (subscript Node_ctor (nodeMap one_edge) 1) = 1"
    by (simp_all add: fixture_defs store_defs)
  obtain r g' where del: "deleteEdge 0 one_edge = Inr (r, g')"
    by (simp add: fixture_defs store_defs)
  have r: "r = 0" and cnt: "getEdgeCount g' = 0"
    using deleteEdge_success(1,2) [OF em del] ed by (simp_all add: getEdgeCount_def)
  have v: "isValidNode g' 0 \<and> isValidNode g' 1"
    using del by (auto simp: fixture_defs store_defs)
  from deleteEdge_keeps_degree_counters [OF em mem del] d0 d1 o i
  have "outDegree (subscript Node_ctor (nodeMap g') 0) = 1 \<and>
        inDegree (subscript Node_ctor (nodeMap g') 1) = 1 \<and>
        \<not> degrees_exact g' 0 \<and> \<not> degrees_exact g' 1"
    by simp
  with d0 d1 del r cnt v show ?thesis by simp
qed

text \<open>
  C4. The claim: on the empty graph each of the four analytics functions is special-cased
  and returns (or, for \<^verbatim>\<open>setComponents\<close>, completes) without running the library's
  algorithm and without error. The code: \<^verbatim>\<open>getBetweennessCentrality\<close>, \<^verbatim>\<open>getShortestPath\<close>
  and \<^verbatim>\<open>getSpanningTree\<close> return the empty vector before the algorithm would run, and return
  with the mutex still locked. \<^verbatim>\<open>setComponents\<close> has no such test: it takes \<^verbatim>\<open>&c[0]\<close> of
  a vector of length 0 and hands it to the library.
\<close>

theorem analytics_on_empty_graph:
  assumes "getNodeCount g = 0" and "getEdgeCount g = 0"
  shows "getBetweennessCentrality E0 brandes g =
           Inr \<lparr>result = [], after = g, algorithm_run = False, mutex_locked = True\<rparr> \<and>
         getShortestPath E0 dijkstra prev g =
           Inr \<lparr>result = [], after = g, algorithm_run = False, mutex_locked = True\<rparr> \<and>
         getSpanningTree E0 prim g =
           Inr \<lparr>result = [], after = g, algorithm_run = False, mutex_locked = True\<rparr> \<and>
         setComponents E0 cc g = Inl Undefined"
proof -
  have tb: "toBoost E0 g = Inr (BoostGraph_ctor, g)"
    using assms(2) by (simp add: toBoost_edge_loop edge_loop.simps [of E0 0])
  show ?thesis
    using assms(1)
    by (simp add: tb getBetweennessCentrality_def getShortestPath_def getSpanningTree_def
        setComponents_def)
qed

theorem analytics_on_empty_graph_witness:
  "getNodeCount (Graph_ctor 0) = 0 \<and>
   getEdgeCount (Graph_ctor 0) = 0 \<and>
   setComponents \<lparr>source = 0, target = 0\<rparr> (\<lambda>bg c. c) (Graph_ctor 0) = Inl Undefined \<and>
   getSpanningTree \<lparr>source = 0, target = 0\<rparr> (\<lambda>bg p. p) (Graph_ctor 0) =
     Inr \<lparr>result = [], after = Graph_ctor 0, algorithm_run = False, mutex_locked = True\<rparr>"
proof -
  have a: "getNodeCount (Graph_ctor 0) = 0" and b: "getEdgeCount (Graph_ctor 0) = 0"
    by (simp_all add: store_defs)
  from analytics_on_empty_graph
    [OF a b, where ?E0.0 = "\<lparr>source = 0, target = 0\<rparr>" and prim = "\<lambda>bg p. p" and cc = "\<lambda>bg c. c"]
  have "setComponents \<lparr>source = 0, target = 0\<rparr> (\<lambda>bg c. c) (Graph_ctor 0) = Inl Undefined \<and>
        getSpanningTree \<lparr>source = 0, target = 0\<rparr> (\<lambda>bg p. p) (Graph_ctor 0) =
          Inr \<lparr>result = [], after = Graph_ctor 0, algorithm_run = False, mutex_locked = True\<rparr>"
    by blast
  with a b show ?thesis by blast
qed

text \<open>
  C5. For every live node \<open>n\<close>, \<^verbatim>\<open>deleteNode(n)\<close> returns \<open>n\<close>, removes \<open>n\<close> from the node
  store, and removes from the edge store exactly the live edges incident to \<open>n\<close>: the
  edges left are the live edges that are not incident, \<^verbatim>\<open>getEdgeCount()\<close> drops by the
  number of incident live edges, and every edge left keeps its record.
\<close>

theorem deleteNode_removes_incident_edges:
  assumes "isValidNode g n"
  shows "fst (deleteNode E0 n g) = n \<and>
         \<not> isValidNode (snd (deleteNode E0 n g)) n \<and>
         n |\<notin>| nodes (snd (deleteNode E0 n g)) \<and>
         edges (snd (deleteNode E0 n g)) = ffilter (\<lambda>e. \<not> incident E0 g n e) (edges g) \<and>
         getEdgeCount (snd (deleteNode E0 n g)) =
           getEdgeCount g - int (fcard (ffilter (incident E0 g n) (edges g))) \<and>
         (\<forall>e. e |\<in>| edges (snd (deleteNode E0 n g)) \<longrightarrow>
              subscript E0 (edgeMap (snd (deleteNode E0 n g))) e = subscript E0 (edgeMap g) e)"
proof -
  note dn = deleteNode_valid [OF assms, of E0]
  have sub: "ffilter (incident E0 g n) (edges g) |\<subseteq>| edges g"
    by auto
  have cnt: "fcard (edges g |-| ffilter (incident E0 g n) (edges g)) =
             fcard (edges g) - fcard (ffilter (incident E0 g n) (edges g))"
    by (rule fcard_funion_fsubset [OF sub])
  have le: "fcard (ffilter (incident E0 g n) (edges g)) \<le> fcard (edges g)"
    by (rule fcard_mono [OF sub])
  have keep: "edges g |-| ffilter (incident E0 g n) (edges g) =
              ffilter (\<lambda>e. \<not> incident E0 g n e) (edges g)"
    by (rule fset_eqI) auto
  have a: "fst (deleteNode E0 n g) = n"
    by (rule dn(1))
  have b: "\<not> isValidNode (snd (deleteNode E0 n g)) n"
    by (simp add: isValidNode_def dn(4))
  have c: "n |\<notin>| nodes (snd (deleteNode E0 n g))"
    by (simp add: dn(3))
  have d: "edges (snd (deleteNode E0 n g)) = ffilter (\<lambda>e. \<not> incident E0 g n e) (edges g)"
    by (simp only: dn(2) keep)
  have e: "getEdgeCount (snd (deleteNode E0 n g)) =
           getEdgeCount g - int (fcard (ffilter (incident E0 g n) (edges g)))"
    using le by (simp add: getEdgeCount_def dn(2) cnt)
  have f: "\<forall>e. e |\<in>| edges (snd (deleteNode E0 n g)) \<longrightarrow>
              subscript E0 (edgeMap (snd (deleteNode E0 n g))) e = subscript E0 (edgeMap g) e"
    by (simp add: d subscript_def dn(5))
  from a b c d e f show ?thesis by blast
qed

theorem deleteNode_removes_incident_edges_witness:
  "isValidNode three_cycle 0 \<and>
   getEdgeCount three_cycle = 3 \<and>
   fcard (ffilter (incident \<lparr>source = 0, target = 0\<rparr> three_cycle 0) (edges three_cycle)) = 2 \<and>
   getEdgeCount (snd (deleteNode \<lparr>source = 0, target = 0\<rparr> 0 three_cycle)) = 1 \<and>
   edges (snd (deleteNode \<lparr>source = 0, target = 0\<rparr> 0 three_cycle)) = {|1|}"
proof -
  let ?E = "\<lparr>source = 0, target = 0\<rparr>"
  have v: "isValidNode three_cycle 0"
    by code_simp
  have n3: "getEdgeCount three_cycle = 3"
    by code_simp
  have inc: "fcard (ffilter (incident ?E three_cycle 0) (edges three_cycle)) = 2"
    by code_simp
  have rest: "ffilter (\<lambda>e. \<not> incident ?E three_cycle 0 e) (edges three_cycle) = {|1|}"
    by code_simp
  from deleteNode_removes_incident_edges [OF v, of ?E] v n3 inc rest
  show ?thesis by simp
qed

text \<open>
  C6. After \<^verbatim>\<open>clear()\<close> the graph is the freshly constructed graph of the same application:
  \<^verbatim>\<open>getNodeCount()\<close> and \<^verbatim>\<open>getEdgeCount()\<close> are 0, \<^verbatim>\<open>getVersion()\<close> is the initial value
  \<open>-1\<close>, and any number of \<^verbatim>\<open>addNode()\<close> calls returns the ids a new graph returns, the
  first of them 0.
\<close>

theorem clear_resets:
  "clear g = Graph_ctor (application g) \<and>
   getNodeCount (clear g) = 0 \<and>
   getEdgeCount (clear g) = 0 \<and>
   getVersion (clear g) = -1 \<and>
   getVersion (clear g) = getVersion (Graph_ctor app) \<and>
   (\<forall>k. fst (addNode_times k (clear g)) = fst (addNode_times k (Graph_ctor app))) \<and>
   fst (addNode (clear g)) = 0 \<and> fst (addNode (Graph_ctor app)) = 0"
  by (simp add: addNode_times_ids addNode_nodeId)
     (simp add: clear_def Graph_ctor_def getNodeCount_def getEdgeCount_def getVersion_def)

theorem clear_resets_witness:
  "getNodeCount three_cycle = 3 \<and> getVersion three_cycle = 5 \<and>
   getNodeCount (clear three_cycle) = 0 \<and> getEdgeCount (clear three_cycle) = 0 \<and>
   getVersion (clear three_cycle) = -1 \<and>
   fst (addNode_times 3 (clear three_cycle)) = [0, 1, 2] \<and>
   fst (addNode_times 3 (Graph_ctor 7)) = [0, 1, 2]"
proof -
  have a: "getNodeCount three_cycle = 3" and b: "getVersion three_cycle = 5"
    and c: "fst (addNode_times 3 (Graph_ctor 7)) = [0, 1, 2]"
    by code_simp+
  from clear_resets [of three_cycle 7]
  have r: "getNodeCount (clear three_cycle) = 0" "getEdgeCount (clear three_cycle) = 0"
      "getVersion (clear three_cycle) = -1"
      "fst (addNode_times 3 (clear three_cycle)) = fst (addNode_times 3 (Graph_ctor 7))"
    by blast+
  show ?thesis
    by (simp only: a b c r)
qed

text \<open>
  C7. The claim: when the source or the target is not a live node, \<^verbatim>\<open>addEdge\<close> returns
  \<open>-1\<close> and leaves the graph unchanged. The live nodes are the ids of the live set
  \<^verbatim>\<open>nodes\<close>, which \<^verbatim>\<open>getNodes()\<close> and \<^verbatim>\<open>getNodeCount()\<close> report. The code: the guard of
  \<^verbatim>\<open>addEdge\<close> is \<^verbatim>\<open>isValidNode\<close>, which looks the id up in \<^verbatim>\<open>nodeMap\<close>, and the read
  accessors go through \<^verbatim>\<open>nodeMap[id]\<close>, which stores a default node for an id that is not
  a key. After \<^verbatim>\<open>hasEdge(src, t)\<close> on an id \<open>src\<close> that is not live, \<open>src\<close> is still not in
  the live set and the node count is unchanged, yet \<^verbatim>\<open>isValidNode(src)\<close> is true, and
  \<^verbatim>\<open>addEdge(src, tgt)\<close> to a valid \<open>tgt\<close> succeeds: it returns the next edge id, stores the
  edge and bumps the version.
\<close>

theorem addEdge_accepts_phantom_node:
  assumes "src |\<notin>| nodes g" and "isValidNode g tgt"
  shows "nodes (snd (hasEdge src t g)) = nodes g \<and>
         src |\<notin>| nodes (snd (hasEdge src t g)) \<and>
         getNodeCount (snd (hasEdge src t g)) = getNodeCount g \<and>
         isValidNode (snd (hasEdge src t g)) src \<and>
         addEdge src tgt (snd (hasEdge src t g)) \<noteq> (-1, snd (hasEdge src t g)) \<and>
         fst (addEdge src tgt (snd (hasEdge src t g))) = edgeId g + 1 \<and>
         edges (snd (addEdge src tgt (snd (hasEdge src t g)))) = finsert (edgeId g + 1) (edges g) \<and>
         edgeMap (snd (addEdge src tgt (snd (hasEdge src t g)))) (edgeId g + 1)
           = Some \<lparr>source = src, target = tgt\<rparr> \<and>
         version (snd (addEdge src tgt (snd (hasEdge src t g)))) = version g + 1"
proof -
  let ?g1 = "snd (hasEdge src t g)"
  have n: "nodes ?g1 = nodes g" and e: "edges ?g1 = edges g"
    and i: "edgeId ?g1 = edgeId g" and ver: "version ?g1 = version g"
    by (simp_all add: hasEdge_def at_node_def Let_def)
  have vs: "isValidNode ?g1 src" and vt: "isValidNode ?g1 tgt"
    using assms(2) by (simp_all add: hasEdge_def at_node_def modify_def isValidNode_def Let_def)
  have r: "fst (addEdge src tgt ?g1) = edgeId g + 1"
    and es: "edges (snd (addEdge src tgt ?g1)) = finsert (edgeId g + 1) (edges g)"
    and em: "edgeMap (snd (addEdge src tgt ?g1)) (edgeId g + 1) = Some \<lparr>source = src, target = tgt\<rparr>"
    and v2: "version (snd (addEdge src tgt ?g1)) = version g + 1"
    using vs vt by (simp_all add: addEdge_def at_node_def update_def Let_def e i ver)
  have "version (snd (addEdge src tgt ?g1)) \<noteq> version ?g1"
    by (simp add: v2 ver)
  then have ne: "addEdge src tgt ?g1 \<noteq> (-1, ?g1)"
    by (metis snd_conv)
  from assms(1) n vs ne r es em v2 show ?thesis
    by (simp add: getNodeCount_def)
qed

theorem addEdge_accepts_phantom_node_witness:
  "7 |\<notin>| nodes two_nodes \<and> \<not> isValidNode two_nodes 7 \<and> isValidNode two_nodes 0 \<and>
   getNodeCount (snd (hasEdge 7 0 two_nodes)) = 2 \<and>
   7 |\<notin>| nodes (snd (hasEdge 7 0 two_nodes)) \<and>
   fst (addEdge 7 0 (snd (hasEdge 7 0 two_nodes))) = 0 \<and>
   getEdgeCount (snd (hasEdge 7 0 two_nodes)) = 0 \<and>
   getEdgeCount (snd (addEdge 7 0 (snd (hasEdge 7 0 two_nodes)))) = 1 \<and>
   edgeMap (snd (addEdge 7 0 (snd (hasEdge 7 0 two_nodes)))) 0 = Some \<lparr>source = 7, target = 0\<rparr>"
proof -
  have a: "7 |\<notin>| nodes two_nodes" and b: "isValidNode two_nodes 0"
    and c: "\<not> isValidNode two_nodes 7"
    and d: "getNodeCount two_nodes = 2" and i: "edgeId two_nodes = -1"
    and e: "edges two_nodes = {||}"
    and f: "getEdgeCount (snd (hasEdge 7 0 two_nodes)) = 0"
    by (simp_all add: fixture_defs store_defs fcard_finsert_if)
  from addEdge_accepts_phantom_node [OF a b, of 0] a b c d i e f
  show ?thesis
    by (simp add: getEdgeCount_def fcard_finsert_if)
qed

text \<open>
  C8. After a successful \<^verbatim>\<open>deleteNode(n)\<close>, a live node \<open>m\<close> other than \<open>n\<close> that had a live
  edge \<open>e\<close> to \<open>n\<close> in its adjacency bucket for \<open>n\<close> is still live and still has \<open>e\<close> there:
  \<^verbatim>\<open>getEdges(m, n)\<close> contains \<open>e\<close> and \<^verbatim>\<open>hasEdge(m, n)\<close> is true, although \<open>e\<close> is no longer
  in the edge store.
\<close>

theorem deleteNode_leaves_stale_adjacency:
  assumes "isValidNode g n" and "m \<noteq> n"
    and "nodeMap g m = Some nd" and "adjacent nd n = Some b" and "e \<in> set b"
    and "e |\<in>| edges g" and "edgeMap g e = Some ed" and "source ed = m" and "target ed = n"
  shows "fst (deleteNode E0 n g) = n \<and>
         isValidNode (snd (deleteNode E0 n g)) m \<and>
         e \<in> set (fst (getEdges m n (snd (deleteNode E0 n g)))) \<and>
         fst (hasEdge m n (snd (deleteNode E0 n g))) \<and>
         e |\<notin>| edges (snd (deleteNode E0 n g)) \<and>
         \<not> isValidEdge (snd (deleteNode E0 n g)) e"
proof -
  note dn = deleteNode_valid [OF assms(1), of E0]
  have inc: "incident E0 g n e"
    using assms(7,9) by (simp add: incident_def subscript_def)
  have nm: "nodeMap (snd (deleteNode E0 n g)) m = Some nd"
    using assms(2,3) by (simp add: dn(4))
  have a: "fst (deleteNode E0 n g) = n"
    by (rule dn(1))
  have b: "isValidNode (snd (deleteNode E0 n g)) m"
    by (simp add: isValidNode_def nm)
  have c: "e \<in> set (fst (getEdges m n (snd (deleteNode E0 n g))))"
    using assms(4,5)
    by (simp add: getEdges_def at_node_def touch_adjacent_def modify_def subscript_def nm Let_def)
  have d: "fst (hasEdge m n (snd (deleteNode E0 n g)))"
    using assms(4)
    by (simp add: hasEdge_def at_node_def modify_def subscript_def nm Let_def)
  have e: "e |\<notin>| edges (snd (deleteNode E0 n g))"
    using inc assms(6) by (simp add: dn(2))
  have f: "\<not> isValidEdge (snd (deleteNode E0 n g)) e"
    using inc assms(6) by (simp add: isValidEdge_def dn(5))
  from a b c d e f show ?thesis by blast
qed

theorem deleteNode_leaves_stale_adjacency_witness:
  "fst (deleteNode \<lparr>source = 0, target = 0\<rparr> 1 one_edge) = 1 \<and>
   isValidNode (snd (deleteNode \<lparr>source = 0, target = 0\<rparr> 1 one_edge)) 0 \<and>
   fst (hasEdge 0 1 (snd (deleteNode \<lparr>source = 0, target = 0\<rparr> 1 one_edge))) \<and>
   0 \<in> set (fst (getEdges 0 1 (snd (deleteNode \<lparr>source = 0, target = 0\<rparr> 1 one_edge)))) \<and>
   \<not> isValidEdge (snd (deleteNode \<lparr>source = 0, target = 0\<rparr> 1 one_edge)) 0"
proof -
  let ?E = "\<lparr>source = 0, target = 0\<rparr>"
  let ?nd = "\<lparr>inDegree = 0, outDegree = 1, component = 0, adjacent = [1 \<mapsto> [0]]\<rparr>"
  have v: "isValidNode one_edge 1" and ne: "(0::int) \<noteq> 1"
    and nm: "nodeMap one_edge 0 = Some ?nd"
    and adj: "adjacent ?nd 1 = Some [0]" and mem: "(0::int) \<in> set [0]"
    and live: "0 |\<in>| edges one_edge"
    and em: "edgeMap one_edge 0 = Some \<lparr>source = 0, target = 1\<rparr>"
    and s: "source \<lparr>source = 0, target = 1\<rparr> = 0" and t: "target \<lparr>source = 0, target = 1\<rparr> = 1"
    by (simp_all add: fixture_defs store_defs)
  from deleteNode_leaves_stale_adjacency [OF v ne nm adj mem live em s t, of ?E]
  show ?thesis by blast
qed

text \<open>
  C9. \<^verbatim>\<open>getEdges\<close> writes: for live nodes \<open>s\<close> and \<open>t\<close> where the record of \<open>s\<close> has no bucket
  for \<open>t\<close>, \<^verbatim>\<open>hasEdge(s, t)\<close> is false, \<^verbatim>\<open>getEdges(s, t)\<close> returns the empty list and stores
  an empty bucket for \<open>t\<close> in the record of \<open>s\<close>, and \<^verbatim>\<open>hasEdge(s, t)\<close> is true afterwards,
  with the edge store unchanged.
\<close>

theorem getEdges_inserts_bucket:
  assumes "isValidNode g s" and "isValidNode g t"
    and "nodeMap g s = Some n" and "adjacent n t = None"
  shows "\<not> fst (hasEdge s t g) \<and>
         fst (getEdges s t g) = [] \<and>
         fst (hasEdge s t (snd (getEdges s t g))) \<and>
         edges (snd (getEdges s t g)) = edges g \<and>
         edgeMap (snd (getEdges s t g)) = edgeMap g \<and>
         nodeMap (snd (getEdges s t g)) = (nodeMap g)(s \<mapsto> n\<lparr>adjacent := (adjacent n)(t \<mapsto> [])\<rparr>)"
  using assms by (simp add: store_defs Let_def)

theorem getEdges_inserts_bucket_witness:
  "getEdgeCount two_nodes = 0 \<and>
   \<not> fst (hasEdge 0 1 two_nodes) \<and>
   fst (hasEdge 0 1 (snd (getEdges 0 1 two_nodes))) \<and>
   getEdgeCount (snd (getEdges 0 1 two_nodes)) = 0"
proof -
  have a: "isValidNode two_nodes 0" and b: "isValidNode two_nodes 1"
    and c: "nodeMap two_nodes 0 = Some Node_ctor" and d: "adjacent Node_ctor 1 = None"
    by (simp_all add: fixture_defs store_defs)
  have e: "getEdgeCount two_nodes = 0"
    by (simp add: fixture_defs store_defs)
  from getEdges_inserts_bucket [OF a b c d] e show ?thesis
    by (simp add: getEdgeCount_def)
qed

text \<open>
  C10. \<^verbatim>\<open>operator=\<close> copies the node store, the edge store and the version of the source
  and leaves the two id counters of the destination as they were. When the id after the
  destination's node counter is live in the source, the next \<^verbatim>\<open>addNode()\<close> on the
  destination returns that id, which is already in the copied node store, and the node
  count does not grow.
\<close>

theorem assign_keeps_counters:
  assumes "nodeId this + 1 |\<in>| nodes g"
  shows "nodeId (assign this g) = nodeId this \<and>
         edgeId (assign this g) = edgeId this \<and>
         nodes (assign this g) = nodes g \<and> nodeMap (assign this g) = nodeMap g \<and>
         edges (assign this g) = edges g \<and> edgeMap (assign this g) = edgeMap g \<and>
         version (assign this g) = version g \<and>
         fst (addNode (assign this g)) |\<in>| nodes (assign this g) \<and>
         getNodeCount (snd (addNode (assign this g))) = getNodeCount (assign this g)"
  using assms
  by (simp add: assign_def addNode_def update_def getNodeCount_def Let_def finsert_absorb)

theorem assign_keeps_counters_witness:
  "nodes two_nodes = {|1, 0|} \<and>
   nodeId two_nodes = 1 \<and> nodeId (assign (Graph_ctor 1) two_nodes) = -1 \<and>
   fst (addNode (assign (Graph_ctor 1) two_nodes)) = 0 \<and>
   fst (addNode (assign (Graph_ctor 1) two_nodes)) |\<in>| nodes (assign (Graph_ctor 1) two_nodes) \<and>
   isValidNode (assign (Graph_ctor 1) two_nodes) 0"
proof -
  have h: "nodeId (Graph_ctor 1) + 1 |\<in>| nodes two_nodes"
    by (simp add: fixture_defs store_defs)
  from assign_keeps_counters [OF h] show ?thesis
    by (simp add: fixture_defs store_defs assign_def)
qed

end
